theory Spec2Isabelle
  imports Main "HOL-Library.Word"
begin

unbundle bit_operations_syntax

section \<open>Values, exceptions and calls\<close>

text \<open>
  The relay of \<^verbatim>\<open>app.py\<close> handles decoded JSON values, raises and catches Python
  exceptions, and talks to two peers: the browser (Starlette's \<^verbatim>\<open>WebSocket\<close>) and the
  upstream service (a \<^verbatim>\<open>websockets\<close> connection). A JSON value is what
  \<^verbatim>\<open>json.loads\<close> returns: \<^verbatim>\<open>None\<close>, a bool, a number, a \<^verbatim>\<open>str\<close>, a list or a
  \<^verbatim>\<open>dict\<close> (an association list read with \<open>map_of\<close>). No code path looks into a
  number, so numbers are integers here.
\<close>

datatype json =
    JNull
  | JBool bool
  | JInt int
  | JStr string
  | JArr "json list"
  | JObj "(string \<times> json) list"

text \<open>
  The exceptions of the module: the one it catches (\<^verbatim>\<open>WebSocketDisconnect\<close>), those its
  own expressions raise (\<^verbatim>\<open>json.loads\<close>, subscripting, \<^verbatim>\<open>base64.b64decode\<close>, an attribute
  of \<^verbatim>\<open>None\<close>), and those a transport raises (\<^verbatim>\<open>ConnectionClosed\<close>; any other, by name).
\<close>

datatype exn =
    WebSocketDisconnect
  | JSONDecodeError
  | KeyError string
  | TypeError
  | ValueError
  | BinasciiError
  | AttributeError
  | ConnectionClosed
  | OtherError string

text \<open>An awaited call either returns a value (\<open>Inr\<close>) or raises (\<open>Inl\<close>).\<close>

type_synonym 'a outcome = "exn + 'a"

datatype pump = ClientToGemini | GeminiToClient

text \<open>
  The calls the module makes on its peers and on the scheduler, in the order it makes them.
  A call is recorded when it is made, whether it then returns or raises.
\<close>

datatype action =
    Accept                  \<comment> \<open>\<^verbatim>\<open>websocket.accept()\<close>\<close>
  | ClientSendJson json     \<comment> \<open>\<^verbatim>\<open>websocket.send_json(obj)\<close>\<close>
  | ClientClose             \<comment> \<open>\<^verbatim>\<open>websocket.close()\<close>\<close>
  | UpConnect string nat    \<comment> \<open>\<^verbatim>\<open>websockets.connect(url, max_size=n)\<close>\<close>
  | UpSend string           \<comment> \<open>\<^verbatim>\<open>self.ws.send(text)\<close>\<close>
  | UpClose                 \<comment> \<open>\<^verbatim>\<open>self.ws.close()\<close>\<close>
  | CreateTask pump         \<comment> \<open>\<^verbatim>\<open>asyncio.create_task(...)\<close>\<close>
  | Cancel pump             \<comment> \<open>\<^verbatim>\<open>t.cancel()\<close>\<close>

text \<open>
  \<^verbatim>\<open>json.loads\<close> and \<^verbatim>\<open>json.dumps\<close> are the standard library's; the module only calls
  them. They are parameters of the model: \<open>json_loads\<close> gives \<open>None\<close> where
  \<^verbatim>\<open>json.loads\<close> raises \<^verbatim>\<open>JSONDecodeError\<close>. Every theorem holds for any pair.
\<close>

record pylib =
  json_loads :: "string \<Rightarrow> json option"
  json_dumps :: "json \<Rightarrow> string"

section \<open>Base64, as \<^verbatim>\<open>base64.b64encode\<close> and \<^verbatim>\<open>base64.b64decode\<close> compute it\<close>

type_synonym byte = "8 word"

definition b64_alphabet :: string where
  "b64_alphabet = ''ABCDEFGHIJKLMNOPQRSTUVWXYZabcdefghijklmnopqrstuvwxyz0123456789+/''"

definition table_b2a_base64 :: "byte \<Rightarrow> char" where
  "table_b2a_base64 v = b64_alphabet ! unat v"

fun index_of :: "char \<Rightarrow> string \<Rightarrow> nat \<Rightarrow> nat option" where
  "index_of c [] i = None"
| "index_of c (x # xs) i = (if c = x then Some i else index_of c xs (Suc i))"

definition table_a2b_base64 :: "char \<Rightarrow> byte option" where
  "table_a2b_base64 c = map_option of_nat (index_of c b64_alphabet 0)"

text \<open>
  Encoding: three bytes become four characters of the alphabet; a last group of one or
  two bytes is padded with \<^verbatim>\<open>=\<close>.
\<close>

fun b2a_base64 :: "byte list \<Rightarrow> string" where
  "b2a_base64 [] = []"
| "b2a_base64 [a] =
     [table_b2a_base64 (drop_bit 2 a),
      table_b2a_base64 (push_bit 4 (a AND 3)),
      CHR ''='', CHR ''='']"
| "b2a_base64 [a, b] =
     [table_b2a_base64 (drop_bit 2 a),
      table_b2a_base64 (push_bit 4 (a AND 3) OR drop_bit 4 b),
      table_b2a_base64 (push_bit 2 (b AND 15)),
      CHR ''='']"
| "b2a_base64 (a # b # c # rest) =
     [table_b2a_base64 (drop_bit 2 a),
      table_b2a_base64 (push_bit 4 (a AND 3) OR drop_bit 4 b),
      table_b2a_base64 (push_bit 2 (b AND 15) OR drop_bit 6 c),
      table_b2a_base64 (c AND 63)] @ b2a_base64 rest"

definition emit :: "byte \<Rightarrow> byte list outcome \<Rightarrow> byte list outcome" where
  "emit b r = (case r of Inl e \<Rightarrow> Inl e | Inr bs \<Rightarrow> Inr (b # bs))"

text \<open>
  Decoding, in the non-validating mode \<^verbatim>\<open>b64decode\<close> uses by default: the loop of
  \<^verbatim>\<open>binascii.a2b_base64\<close> over the characters, with its three variables. A character
  outside the alphabet is skipped; a \<^verbatim>\<open>=\<close> that completes a group ends the input;
  an incomplete last group raises \<^verbatim>\<open>binascii.Error\<close>.
\<close>

fun a2b_base64 :: "nat \<Rightarrow> byte \<Rightarrow> nat \<Rightarrow> string \<Rightarrow> byte list outcome" where
  "a2b_base64 quad_pos leftchar pads [] =
     (if quad_pos \<noteq> 0 then Inl BinasciiError else Inr [])"
| "a2b_base64 quad_pos leftchar pads (this_ch # rest) =
     (if this_ch = CHR ''='' then
        (if quad_pos \<ge> 2 \<and> quad_pos + (pads + 1) \<ge> 4 then Inr []
         else a2b_base64 quad_pos leftchar (if quad_pos \<ge> 2 then pads + 1 else pads) rest)
      else
        (case table_a2b_base64 this_ch of
           None \<Rightarrow> a2b_base64 quad_pos leftchar pads rest
         | Some v \<Rightarrow>
             (if quad_pos = 0 then a2b_base64 1 v 0 rest
              else if quad_pos = 1 then
                emit (push_bit 2 leftchar OR drop_bit 4 v) (a2b_base64 2 (v AND 15) 0 rest)
              else if quad_pos = 2 then
                emit (push_bit 4 leftchar OR drop_bit 2 v) (a2b_base64 3 (v AND 3) 0 rest)
              else
                emit (push_bit 6 leftchar OR v) (a2b_base64 0 0 0 rest))))"

definition is_ascii :: "char \<Rightarrow> bool" where
  "is_ascii c = ((of_char c :: nat) < 128)"

text \<open>\<^verbatim>\<open>base64.b64encode(bs).decode()\<close>: the encoding as a \<^verbatim>\<open>str\<close>.\<close>

definition b64encode :: "byte list \<Rightarrow> string" where
  "b64encode bs = b2a_base64 bs"

text \<open>
  \<^verbatim>\<open>base64.b64decode(v)\<close> on a value taken from a decoded JSON frame: a \<^verbatim>\<open>str\<close> must be
  ASCII (\<^verbatim>\<open>ValueError\<close> otherwise); any other JSON value is not bytes-like
  (\<^verbatim>\<open>TypeError\<close>).
\<close>

definition b64decode :: "json \<Rightarrow> byte list outcome" where
  "b64decode v =
     (case v of
        JStr s \<Rightarrow> if list_all is_ascii s then a2b_base64 0 0 0 s else Inl ValueError
      | _ \<Rightarrow> Inl TypeError)"

section \<open>\<^verbatim>\<open>GeminiLiveSession\<close>\<close>

text \<open>
  The connection object behind \<^verbatim>\<open>self.ws\<close> is the \<^verbatim>\<open>websockets\<close> library's. The
  session owns it alone, so its state is kept in the session: open after
  \<^verbatim>\<open>websockets.connect\<close> returns, closed after its \<^verbatim>\<open>close()\<close>, which the library
  documents as doing nothing on a connection that is closed already.
\<close>

datatype ws_state = Open | Closed

record GeminiLiveSession =
  api_key :: string
  model :: string
  ws :: "ws_state option"

definition GEMINI_LIVE_WS :: string where
  "GEMINI_LIVE_WS =
     ''wss://generativelanguage.googleapis.com/ws/google.ai.generativelanguage.v1alpha.LLMService/LiveSession''"

definition init :: "string \<Rightarrow> string \<Rightarrow> GeminiLiveSession" where
  "init k m = \<lparr>api_key = k, model = m, ws = None\<rparr>"

definition setup_frame :: "string \<Rightarrow> json" where
  "setup_frame m =
     JObj [(''setup'',
       JObj [(''model'', JStr m),
             (''response'',
               JObj [(''modalities'', JArr [JStr ''AUDIO'', JStr ''TEXT'']),
                     (''instructions'', JStr ''You are a helpful assistant.'')])])]"

text \<open>
  \<^verbatim>\<open>connect\<close>: \<open>opened\<close> is what \<^verbatim>\<open>websockets.connect\<close> does (returns or raises),
  \<open>sent\<close> what the \<^verbatim>\<open>send\<close> of the setup frame does. A method gives the calls it
  made, its outcome and the session as it leaves it.
\<close>

definition connect ::
  "pylib \<Rightarrow> GeminiLiveSession \<Rightarrow> unit outcome \<Rightarrow> unit outcome \<Rightarrow>
     action list \<times> unit outcome \<times> GeminiLiveSession" where
  "connect py self opened sent =
     (let url = GEMINI_LIVE_WS @ ''?key='' @ api_key self in
      case opened of
        Inl e \<Rightarrow> ([UpConnect url (32 * 1024 * 1024)], Inl e, self)
      | Inr _ \<Rightarrow>
          ([UpConnect url (32 * 1024 * 1024), UpSend (json_dumps py (setup_frame (model self)))],
           sent, self\<lparr>ws := Some Open\<rparr>))"

text \<open>\<^verbatim>\<open>close\<close>: \<^verbatim>\<open>if self.ws: await self.ws.close()\<close>. A connection object is truthy.\<close>

definition close :: "GeminiLiveSession \<Rightarrow> action list \<times> unit outcome \<times> GeminiLiveSession" where
  "close self =
     (case ws self of
        None \<Rightarrow> ([], Inr (), self)
      | Some c \<Rightarrow> ([UpClose], Inr (), self\<lparr>ws := Some Closed\<rparr>))"

text \<open>Calling \<^verbatim>\<open>close\<close> a number of times in a row, stopping if one raises.\<close>

fun close_times :: "nat \<Rightarrow> GeminiLiveSession \<Rightarrow> unit outcome \<times> GeminiLiveSession" where
  "close_times 0 self = (Inr (), self)"
| "close_times (Suc n) self =
     (case close self of
        (cs, Inl x, self') \<Rightarrow> (Inl x, self')
      | (cs, Inr _, self') \<Rightarrow> close_times n self')"

text \<open>
  The three senders write one frame each; on a session that never connected,
  \<^verbatim>\<open>self.ws\<close> is \<^verbatim>\<open>None\<close> and the attribute \<^verbatim>\<open>send\<close> is missing.
\<close>

definition send_user_text ::
  "pylib \<Rightarrow> GeminiLiveSession \<Rightarrow> json \<Rightarrow> unit outcome \<Rightarrow> action list \<times> unit outcome" where
  "send_user_text py self text sent =
     (case ws self of
        None \<Rightarrow> ([], Inl AttributeError)
      | Some c \<Rightarrow> ([UpSend (json_dumps py (JObj [(''input'', JObj [(''text'', text)])]))], sent))"

definition send_user_audio ::
  "pylib \<Rightarrow> GeminiLiveSession \<Rightarrow> byte list \<Rightarrow> unit outcome \<Rightarrow> action list \<times> unit outcome" where
  "send_user_audio py self pcm16 sent =
     (let evt = JObj [(''input'', JObj [(''audio'',
                  JObj [(''mime_type'', JStr ''audio/pcm;rate=16000''),
                        (''data'', JStr (b64encode pcm16))])])]
      in case ws self of
           None \<Rightarrow> ([], Inl AttributeError)
         | Some c \<Rightarrow> ([UpSend (json_dumps py evt)], sent))"

definition send_user_video ::
  "pylib \<Rightarrow> GeminiLiveSession \<Rightarrow> byte list \<Rightarrow> unit outcome \<Rightarrow> action list \<times> unit outcome" where
  "send_user_video py self jpg sent =
     (let evt = JObj [(''input'', JObj [(''video'',
                  JObj [(''mime_type'', JStr ''image/jpeg''),
                        (''data'', JStr (b64encode jpg))])])]
      in case ws self of
           None \<Rightarrow> ([], Inl AttributeError)
         | Some c \<Rightarrow> ([UpSend (json_dumps py evt)], sent))"

text \<open>
  \<^verbatim>\<open>receive\<close>, one turn of the generator: \<open>item\<close> is what the iteration over
  \<^verbatim>\<open>self.ws\<close> does next: it raises, it ends (\<open>Inr None\<close>: the upstream closed the
  connection) or it yields a message, which is decoded and yielded on.
\<close>

definition receive ::
  "pylib \<Rightarrow> GeminiLiveSession \<Rightarrow> string option outcome \<Rightarrow> json option outcome" where
  "receive py self item =
     (case ws self of
        None \<Rightarrow> Inl TypeError
      | Some c \<Rightarrow>
          (case item of
             Inl e \<Rightarrow> Inl e
           | Inr None \<Rightarrow> Inr None
           | Inr (Some msg) \<Rightarrow>
               (case json_loads py msg of
                  None \<Rightarrow> Inl JSONDecodeError
                | Some evt \<Rightarrow> Inr (Some evt))))"

section \<open>The two pumps of \<^verbatim>\<open>ws_endpoint\<close>\<close>

text \<open>
  Subscripting a decoded value with a \<^verbatim>\<open>str\<close> key: a \<^verbatim>\<open>dict\<close> without the key
  raises \<^verbatim>\<open>KeyError\<close>; a list, a string, a number, a bool or \<^verbatim>\<open>None\<close> raises
  \<^verbatim>\<open>TypeError\<close>.
\<close>

definition getitem :: "json \<Rightarrow> string \<Rightarrow> json outcome" where
  "getitem data k =
     (case data of
        JObj kvs \<Rightarrow> (case map_of kvs k of None \<Rightarrow> Inl (KeyError k) | Some v \<Rightarrow> Inr v)
      | _ \<Rightarrow> Inl TypeError)"

text \<open>
  One turn of the \<^verbatim>\<open>while True\<close> loop of \<^verbatim>\<open>client_to_gemini\<close>. \<open>received\<close> is what
  \<^verbatim>\<open>websocket.receive_text()\<close> does (a text frame, or an exception), \<open>sent\<close> what the
  upstream \<^verbatim>\<open>send\<close> does if the turn reaches one.
\<close>

definition client_to_gemini_body ::
  "pylib \<Rightarrow> GeminiLiveSession \<Rightarrow> string outcome \<Rightarrow> unit outcome \<Rightarrow> action list \<times> unit outcome" where
  "client_to_gemini_body py session received sent =
     (case received of
        Inl e \<Rightarrow> ([], Inl e)
      | Inr msg \<Rightarrow>
          (case json_loads py msg of
             None \<Rightarrow> ([], Inl JSONDecodeError)
           | Some data \<Rightarrow>
               (case getitem data ''type'' of
                  Inl e \<Rightarrow> ([], Inl e)
                | Inr t \<Rightarrow>
                    if t = JStr ''text'' then
                      (case getitem data ''text'' of
                         Inl e \<Rightarrow> ([], Inl e)
                       | Inr text \<Rightarrow> send_user_text py session text sent)
                    else if t = JStr ''audio'' then
                      (case getitem data ''pcm16'' of
                         Inl e \<Rightarrow> ([], Inl e)
                       | Inr b \<Rightarrow>
                           (case b64decode b of
                              Inl e \<Rightarrow> ([], Inl e)
                            | Inr pcm16 \<Rightarrow> send_user_audio py session pcm16 sent))
                    else ([], Inr ()))))"

text \<open>
  A task of the event loop: still running, running with a cancellation requested
  (\<^verbatim>\<open>cancel()\<close> only asks; the task ends as cancelled when the loop next resumes it,
  which awaiting it would wait for), or ended: returned, raised, or cancelled.
\<close>

datatype task_state = Running | CancelRequested | Finished | Failed exn | Cancelled

definition ended :: "task_state \<Rightarrow> bool" where
  "ended t = (t \<noteq> Running \<and> t \<noteq> CancelRequested)"

text \<open>
  The turn inside \<^verbatim>\<open>try: ... except WebSocketDisconnect: pass\<close>: the loop goes on after
  a turn that returns; \<^verbatim>\<open>WebSocketDisconnect\<close> ends the task normally; any other
  exception ends it as failed.
\<close>

definition client_to_gemini ::
  "pylib \<Rightarrow> GeminiLiveSession \<Rightarrow> string outcome \<Rightarrow> unit outcome \<Rightarrow> action list \<times> task_state" where
  "client_to_gemini py session received sent =
     (case client_to_gemini_body py session received sent of
        (cs, Inr _) \<Rightarrow> (cs, Running)
      | (cs, Inl e) \<Rightarrow> (cs, if e = WebSocketDisconnect then Finished else Failed e))"

text \<open>
  One turn of \<^verbatim>\<open>async for evt in session.receive()\<close> in \<^verbatim>\<open>gemini_to_client\<close>;
  \<open>sent\<close> is what \<^verbatim>\<open>websocket.send_json\<close> does. Nothing is caught here.
\<close>

definition gemini_to_client ::
  "pylib \<Rightarrow> GeminiLiveSession \<Rightarrow> string option outcome \<Rightarrow> unit outcome \<Rightarrow> action list \<times> task_state" where
  "gemini_to_client py session item sent =
     (case receive py session item of
        Inl e \<Rightarrow> ([], Failed e)
      | Inr None \<Rightarrow> ([], Finished)
      | Inr (Some evt) \<Rightarrow>
          ([ClientSendJson (JObj [(''type'', JStr ''gemini''), (''data'', evt)])],
           case sent of Inl e \<Rightarrow> Failed e | Inr _ \<Rightarrow> Running))"

text \<open>
  The event loop interleaves the two tasks. A schedule lists the turns in the order the
  loop runs them, each with what the peers do in it. A turn scheduled for a task that has
  ended does nothing.
\<close>

datatype event =
    InboundTurn "string outcome" "unit outcome"
  | OutboundTurn "string option outcome" "unit outcome"

record pumps =
  calls :: "action list"
  c2g :: task_state
  g2c :: task_state

definition turn :: "pylib \<Rightarrow> GeminiLiveSession \<Rightarrow> event \<Rightarrow> pumps \<Rightarrow> pumps" where
  "turn py session ev st =
     (case ev of
        InboundTurn received sent \<Rightarrow>
          if c2g st = Running then
            (case client_to_gemini py session received sent of
               (cs, t) \<Rightarrow> st\<lparr>calls := calls st @ cs, c2g := t\<rparr>)
          else st
      | OutboundTurn item sent \<Rightarrow>
          if g2c st = Running then
            (case gemini_to_client py session item sent of
               (cs, t) \<Rightarrow> st\<lparr>calls := calls st @ cs, g2c := t\<rparr>)
          else st)"

fun run_pumps :: "pylib \<Rightarrow> GeminiLiveSession \<Rightarrow> event list \<Rightarrow> pumps \<Rightarrow> pumps" where
  "run_pumps py session [] st = st"
| "run_pumps py session (ev # evs) st = run_pumps py session evs (turn py session ev st)"

definition started :: pumps where
  "started = \<lparr>calls = [], c2g = Running, g2c = Running\<rparr>"

text \<open>\<^verbatim>\<open>t.cancel()\<close>: a request on a task that runs, nothing on one that has ended.\<close>

definition cancel :: "task_state \<Rightarrow> task_state" where
  "cancel t = (if t = Running then CancelRequested else t)"

section \<open>\<^verbatim>\<open>ws_endpoint\<close>\<close>

text \<open>
  What a connection meets: the two environment variables read at import, what each
  awaited call before the pumps does, and the schedule of the pumps' turns up to the
  moment \<^verbatim>\<open>asyncio.wait\<close> hands control back. \<^verbatim>\<open>asyncio.wait\<close> with
  \<^verbatim>\<open>FIRST_COMPLETED\<close> returns once a task has ended and never raises a task's
  exception; the turns a schedule lists after the first task ended are those the other
  task still gets before the handler is resumed. While both tasks run, the handler waits.
\<close>

record env =
  GOOGLE_API_KEY :: "string option"
  GEMINI_MODEL :: "string option"
  error_sent :: "unit outcome"
  client_closed :: "unit outcome"
  upstream_opened :: "unit outcome"
  setup_sent :: "unit outcome"
  schedule :: "event list"

definition API_KEY :: "env \<Rightarrow> string option" where
  "API_KEY e = GOOGLE_API_KEY e"

definition MODEL_ID :: "env \<Rightarrow> string" where
  "MODEL_ID e = (case GEMINI_MODEL e of None \<Rightarrow> ''models/gemini-2.5-flash'' | Some m \<Rightarrow> m)"

text \<open>
  What a run of the handler leaves: the calls it made; how it stands (returned, left by
  an exception, or still waiting in \<^verbatim>\<open>asyncio.wait\<close>); the session object, if one was
  constructed; and the two tasks, \<^verbatim>\<open>client_to_gemini\<close> first, as the handler's last
  call on them leaves them (none if they were never created). After \<^verbatim>\<open>cancel()\<close> the
  handler goes on to \<^verbatim>\<open>session.close()\<close> without a suspension point in between, so
  this is the state of the tasks when it closes the upstream.
\<close>

datatype status = Returned | Raised exn | Waiting

record run =
  trace :: "action list"
  result :: status
  session_of :: "GeminiLiveSession option"
  tasks :: "(task_state \<times> task_state) option"

text \<open>
  The branch of \<^verbatim>\<open>if not API_KEY\<close>: the variable is unset or empty. \<open>error_sent\<close> is
  what \<^verbatim>\<open>websocket.send_json\<close> does there and \<open>client_closed\<close> what
  \<^verbatim>\<open>websocket.close()\<close> does; nothing is caught, so an exception of either leaves the
  handler at that call.
\<close>

definition missing_key :: "env \<Rightarrow> run" where
  "missing_key e =
     (let frame = JObj [(''error'', JStr ''Missing GOOGLE_API_KEY'')] in
      case error_sent e of
        Inl x \<Rightarrow>
          \<lparr>trace = [Accept, ClientSendJson frame], result = Raised x,
           session_of = None, tasks = None\<rparr>
      | Inr _ \<Rightarrow>
          \<lparr>trace = [Accept, ClientSendJson frame, ClientClose],
           result = (case client_closed e of Inl y \<Rightarrow> Raised y | Inr _ \<Rightarrow> Returned),
           session_of = None, tasks = None\<rparr>)"

text \<open>
  The rest of \<^verbatim>\<open>ws_endpoint\<close>, with the key \<open>k\<close>: construct the session and connect;
  create the two tasks; wait until one has ended; cancel both; close the session.
\<close>

definition relay :: "pylib \<Rightarrow> env \<Rightarrow> string \<Rightarrow> run" where
  "relay py e k =
     (case connect py (init k (MODEL_ID e)) (upstream_opened e) (setup_sent e) of
        (cs, Inl x, session) \<Rightarrow>
          \<lparr>trace = Accept # cs, result = Raised x, session_of = Some session, tasks = None\<rparr>
      | (cs, Inr _, session) \<Rightarrow>
          (let st = run_pumps py session (schedule e) started;
               spawned = [CreateTask ClientToGemini, CreateTask GeminiToClient]
           in if c2g st = Running \<and> g2c st = Running then
                \<lparr>trace = Accept # cs @ spawned @ calls st, result = Waiting,
                 session_of = Some session, tasks = Some (c2g st, g2c st)\<rparr>
              else
                (case close session of
                   (cl, r, session') \<Rightarrow>
                     \<lparr>trace = Accept # cs @ spawned @ calls st
                               @ [Cancel ClientToGemini, Cancel GeminiToClient] @ cl,
                      result = (case r of Inl x \<Rightarrow> Raised x | Inr _ \<Rightarrow> Returned),
                      session_of = Some session',
                      tasks = Some (cancel (c2g st), cancel (g2c st))\<rparr>)))"

definition ws_endpoint :: "pylib \<Rightarrow> env \<Rightarrow> run" where
  "ws_endpoint py e =
     (case API_KEY e of
        None \<Rightarrow> missing_key e
      | Some k \<Rightarrow> if k = [] then missing_key e else relay py e k)"

section \<open>Notions the statements use\<close>

text \<open>
  The frames a pump writes: to the upstream (\<open>UpSend\<close>) or to the browser
  (\<open>ClientSendJson\<close>).
\<close>

definition is_frame :: "action \<Rightarrow> bool" where
  "is_frame a = (case a of UpSend f \<Rightarrow> True | ClientSendJson j \<Rightarrow> True | _ \<Rightarrow> False)"

text \<open>
  A malformed client frame: text that is not JSON, JSON that has no \<^verbatim>\<open>"type"\<close> to
  subscript, or JSON of type \<^verbatim>\<open>"text"\<close> or \<^verbatim>\<open>"audio"\<close> without the key that type
  reads (\<^verbatim>\<open>"text"\<close>, \<^verbatim>\<open>"pcm16"\<close>).
\<close>

definition malformed :: "pylib \<Rightarrow> string \<Rightarrow> bool" where
  "malformed py msg =
     (case json_loads py msg of
        None \<Rightarrow> True
      | Some data \<Rightarrow>
          (case getitem data ''type'' of
             Inl x \<Rightarrow> True
           | Inr t \<Rightarrow>
               (t = JStr ''text'' \<and> isl (getitem data ''text''))
               \<or> (t = JStr ''audio'' \<and> isl (getitem data ''pcm16''))))"

text \<open>
  For concrete runs: a JSON library that decodes a handful of frames by name and writes
  a frame as its first key, and an environment with a key (or none), an upstream that
  opens (or not) and a schedule.
\<close>

definition sample_py :: pylib where
  "sample_py =
     \<lparr>json_loads = map_of
        [(''hello'', JObj [(''type'', JStr ''text''), (''text'', JStr ''hello'')]),
         (''audio'', JObj [(''type'', JStr ''audio''), (''pcm16'', JStr ''aGk='')]),
         (''ping'', JObj [(''type'', JStr ''ping'')]),
         (''untyped'', JObj [(''text'', JStr ''hello'')]),
         (''hi'', JObj [(''output'', JObj [(''text'', JStr ''hi'')])])],
      json_dumps = (\<lambda>j. case j of JObj ((k, v) # kvs) \<Rightarrow> k | _ \<Rightarrow> [])\<rparr>"

definition sample_env :: "string option \<Rightarrow> unit outcome \<Rightarrow> event list \<Rightarrow> env" where
  "sample_env key opening evs =
     \<lparr>GOOGLE_API_KEY = key, GEMINI_MODEL = None, error_sent = Inr (),
      client_closed = Inr (), upstream_opened = opening, setup_sent = Inr (), schedule = evs\<rparr>"

section \<open>Base64 round trip\<close>

lemma table_a2b_b2a_upto:
  "\<forall>i \<in> set [0..<64]. table_a2b_base64 (b64_alphabet ! i) = Some (of_nat i)"
  by code_simp

lemma table_ascii_upto: "\<forall>i \<in> set [0..<64]. is_ascii (b64_alphabet ! i)"
  by code_simp

lemma pad_not_in_table: "table_a2b_base64 (CHR ''='') = None"
  by code_simp

lemma pad_ascii: "is_ascii (CHR ''='')"
  by code_simp

lemma and_3: "a AND 3 = take_bit 2 (a::byte)"
  by (simp add: take_bit_eq_mask mask_eq_exp_minus_1)

lemma and_15: "a AND 15 = take_bit 4 (a::byte)"
  by (simp add: take_bit_eq_mask mask_eq_exp_minus_1)

lemma and_63: "a AND 63 = take_bit 6 (a::byte)"
  by (simp add: take_bit_eq_mask mask_eq_exp_minus_1)

lemma Suc_Suc_diff_2: "2 \<le> n \<Longrightarrow> Suc (Suc (n - 2)) = n"
  by simp

text \<open>The three bytes of a group are recovered from its four sextets.\<close>

lemma first_byte:
  "push_bit 2 (drop_bit 2 a) OR drop_bit 4 (push_bit 4 (a AND 3) OR drop_bit 4 b) = (a::byte)"
  unfolding and_3
proof (rule bit_eqI)
  fix n
  show "bit (push_bit 2 (drop_bit 2 a) OR drop_bit 4 (push_bit 4 (take_bit 2 a) OR drop_bit 4 b)) n
          = bit a n"
    by (cases "2 \<le> n") (auto simp: bit_simps Suc_Suc_diff_2 dest: bit_imp_le_length)
qed

lemma first_byte_padded:
  "push_bit 2 (drop_bit 2 a) OR drop_bit 4 (push_bit 4 (a AND 3)) = (a::byte)"
  unfolding and_3
proof (rule bit_eqI)
  fix n
  show "bit (push_bit 2 (drop_bit 2 a) OR drop_bit 4 (push_bit 4 (take_bit 2 a))) n = bit a n"
    by (cases "2 \<le> n") (auto simp: bit_simps Suc_Suc_diff_2 dest: bit_imp_le_length)
qed

lemma second_byte:
  "push_bit 4 ((push_bit 4 (a AND 3) OR drop_bit 4 b) AND 15)
     OR drop_bit 2 (push_bit 2 (b AND 15) OR drop_bit 6 c) = (b::byte)"
  unfolding and_3 and_15
  by (rule bit_eqI) (auto simp: bit_simps Suc_Suc_diff_2)

lemma second_byte_padded:
  "push_bit 4 ((push_bit 4 (a AND 3) OR drop_bit 4 b) AND 15)
     OR drop_bit 2 (push_bit 2 (b AND 15)) = (b::byte)"
  unfolding and_3 and_15
  by (rule bit_eqI) (auto simp: bit_simps Suc_Suc_diff_2)

lemma third_byte:
  "push_bit 6 ((push_bit 2 (b AND 15) OR drop_bit 6 c) AND 3) OR (c AND 63) = (c::byte)"
  unfolding and_3 and_15 and_63
  by (rule bit_eqI) (auto simp: bit_simps Suc_Suc_diff_2)

lemma less_64_iff: "(v::byte) < 64 \<longleftrightarrow> take_bit 6 v = v"
  using mask_eq_iff_w2p [of 6 v] by (simp add: take_bit_eq_mask word_size)

lemma sextet_less_64:
  "drop_bit 2 (a::byte) < 64"
  "push_bit 4 (a AND 3) OR drop_bit 4 b < (64::byte)"
  "push_bit 2 (b AND 15) OR drop_bit 6 c < (64::byte)"
  "c AND 63 < (64::byte)"
  "push_bit 4 (a AND 3) < (64::byte)"
  "push_bit 2 (b AND 15) < (64::byte)"
  unfolding less_64_iff and_3 and_15 and_63
  by (rule bit_eqI; auto simp: bit_simps dest: bit_imp_le_length)+

lemma table_a2b_b2a:
  assumes "v < 64"
  shows "table_a2b_base64 (table_b2a_base64 v) = Some v"
proof -
  from assms have "unat v < 64"
    by (simp add: word_less_nat_alt)
  then have "unat v \<in> set [0..<64]"
    by simp
  with table_a2b_b2a_upto
  have "table_a2b_base64 (b64_alphabet ! unat v) = Some (of_nat (unat v))"
    by blast
  then show ?thesis
    by (simp add: table_b2a_base64_def)
qed

lemma table_b2a_ascii:
  assumes "v < 64"
  shows "is_ascii (table_b2a_base64 v)"
proof -
  from assms have "unat v \<in> set [0..<64]"
    by (simp add: word_less_nat_alt)
  with table_ascii_upto show ?thesis
    unfolding table_b2a_base64_def by blast
qed

lemma table_b2a_not_pad: "v < 64 \<Longrightarrow> table_b2a_base64 v \<noteq> CHR ''=''"
  using table_a2b_b2a [of v] pad_not_in_table by auto

lemma a2b_full_group:
  assumes "v0 < 64" "v1 < 64" "v2 < 64" "v3 < 64"
  shows "a2b_base64 0 l p
           (table_b2a_base64 v0 # table_b2a_base64 v1 # table_b2a_base64 v2
              # table_b2a_base64 v3 # rest) =
         emit (push_bit 2 v0 OR drop_bit 4 v1)
           (emit (push_bit 4 (v1 AND 15) OR drop_bit 2 v2)
             (emit (push_bit 6 (v2 AND 3) OR v3) (a2b_base64 0 0 0 rest)))"
  using assms by (simp add: table_a2b_b2a table_b2a_not_pad)

lemma a2b_two_bytes:
  assumes "v0 < 64" "v1 < 64" "v2 < 64"
  shows "a2b_base64 0 l p
           (table_b2a_base64 v0 # table_b2a_base64 v1 # table_b2a_base64 v2 # CHR ''='' # rest) =
         Inr [push_bit 2 v0 OR drop_bit 4 v1, push_bit 4 (v1 AND 15) OR drop_bit 2 v2]"
  using assms by (simp add: table_a2b_b2a table_b2a_not_pad emit_def)

lemma a2b_one_byte:
  assumes "v0 < 64" "v1 < 64"
  shows "a2b_base64 0 l p
           (table_b2a_base64 v0 # table_b2a_base64 v1 # CHR ''='' # CHR ''='' # rest) =
         Inr [push_bit 2 v0 OR drop_bit 4 v1]"
  using assms by (simp add: table_a2b_b2a table_b2a_not_pad emit_def)

lemma a2b_b2a: "a2b_base64 0 l p (b2a_base64 bs) = Inr bs"
proof (induction bs arbitrary: l p rule: b2a_base64.induct)
  case 1
  show ?case by simp
next
  case (2 a)
  show ?case
    unfolding b2a_base64.simps
    by (subst a2b_one_byte) (simp_all only: sextet_less_64 first_byte_padded)
next
  case (3 a b)
  show ?case
    unfolding b2a_base64.simps
    by (subst a2b_two_bytes) (simp_all only: sextet_less_64 first_byte second_byte_padded)
next
  case (4 a b c rest)
  show ?case
    unfolding b2a_base64.simps append.simps
    by (subst a2b_full_group)
      (simp_all only: sextet_less_64 first_byte second_byte third_byte "4.IH" emit_def sum.case)
qed

lemma b2a_ascii: "list_all is_ascii (b2a_base64 bs)"
proof (induction bs rule: b2a_base64.induct)
  case 1
  show ?case by simp
next
  case (2 a)
  show ?case
    unfolding b2a_base64.simps
    by (simp only: list.pred_inject table_b2a_ascii sextet_less_64 pad_ascii simp_thms)
next
  case (3 a b)
  show ?case
    unfolding b2a_base64.simps
    by (simp only: list.pred_inject table_b2a_ascii sextet_less_64 pad_ascii simp_thms)
next
  case (4 a b c rest)
  show ?case
    unfolding b2a_base64.simps list_all_append
    by (simp only: list.pred_inject table_b2a_ascii sextet_less_64 "4.IH" simp_thms)
qed

lemma b64decode_b64encode: "b64decode (JStr (b64encode bs)) = Inr bs"
  by (simp add: b64decode_def b64encode_def b2a_ascii a2b_b2a)

section \<open>The session's own methods\<close>

text \<open>
  C7: for every connect whose transport handshake succeeds, the URL is the fixed base
  path followed by \<^verbatim>\<open>?key=\<close> and the credential, the limit on an inbound frame is
  32 MiB (so at least 32 MiB), and the first frame written is the setup frame for the
  session's model, with the modalities AUDIO and TEXT and the fixed instructions; the
  handler opens its trace with exactly these calls for the configured key and model.
\<close>

theorem connect_url_limit_setup:
  assumes "API_KEY e = Some k" and "k \<noteq> []" and "upstream_opened e = Inr u"
  shows "connect py self (Inr u) sent =
           ([UpConnect (GEMINI_LIVE_WS @ ''?key='' @ api_key self) 33554432,
             UpSend (json_dumps py
               (JObj [(''setup'',
                  JObj [(''model'', JStr (model self)),
                        (''response'',
                          JObj [(''modalities'', JArr [JStr ''AUDIO'', JStr ''TEXT'']),
                                (''instructions'', JStr ''You are a helpful assistant.'')])])]))],
            sent, self\<lparr>ws := Some Open\<rparr>)
         \<and> (32::nat) * 2 ^ 20 \<le> 33554432
         \<and> take 3 (trace (ws_endpoint py e)) =
             [Accept,
              UpConnect (GEMINI_LIVE_WS @ ''?key='' @ k) 33554432,
              UpSend (json_dumps py (setup_frame (MODEL_ID e)))]"
proof -
  have "take 3 (trace (relay py e k)) =
          [Accept, UpConnect (GEMINI_LIVE_WS @ ''?key='' @ k) 33554432,
           UpSend (json_dumps py (setup_frame (MODEL_ID e)))]"
    using assms(3)
    by (cases "setup_sent e")
      (simp_all add: relay_def connect_def init_def close_def Let_def split: prod.splits)
  then show ?thesis
    using assms by (simp add: connect_def setup_frame_def ws_endpoint_def)
qed

theorem connect_url_limit_setup_witness:
  "connect \<lparr>json_loads = (\<lambda>s. None), json_dumps = (\<lambda>j. ''frame'')\<rparr>
     (init ''secret'' ''models/gemini-2.5-flash'') (Inr ()) (Inr ()) =
     ([UpConnect (GEMINI_LIVE_WS @ ''?key=secret'') 33554432, UpSend ''frame''],
      Inr (), \<lparr>api_key = ''secret'', model = ''models/gemini-2.5-flash'', ws = Some Open\<rparr>)"
  using connect_url_limit_setup
    [of "\<lparr>GOOGLE_API_KEY = Some ''secret'', GEMINI_MODEL = None, error_sent = Inr (),
          client_closed = Inr (), upstream_opened = Inr (), setup_sent = Inr (), schedule = []\<rparr>"
        "''secret''" "()" "\<lparr>json_loads = (\<lambda>s. None), json_dumps = (\<lambda>j. ''frame'')\<rparr>"
        "init ''secret'' ''models/gemini-2.5-flash''" "Inr ()"]
  by (simp add: API_KEY_def init_def)

lemma close_twice: "close (snd (snd (close self))) = (fst (close self), Inr (), snd (snd (close self)))"
  by (cases "ws self") (simp_all add: close_def)

lemma close_times_Suc: "close_times (Suc n) self = (Inr (), snd (snd (close self)))"
proof (induction n arbitrary: self)
  case 0
  show ?case by (cases "ws self") (simp_all add: close_def)
next
  case (Suc n)
  have "close_times (Suc (Suc n)) self = close_times (Suc n) (snd (snd (close self)))"
    by (cases "ws self") (simp_all add: close_def)
  also have "\<dots> = (Inr (), snd (snd (close (snd (snd (close self))))))"
    by (rule Suc.IH)
  also have "\<dots> = (Inr (), snd (snd (close self)))"
    by (simp add: close_twice)
  finally show ?case .
qed

text \<open>
  C8: \<^verbatim>\<open>close()\<close> is idempotent and safe. Any number of calls in a row, one or more,
  all return without an exception and leave the session as a single call leaves it; on a
  session that never connected a call returns without an exception, makes no call on a
  transport and leaves the session as it was. (A later call on a connected session is
  passed on to the connection's own \<^verbatim>\<open>close()\<close>, which finds it closed.)
\<close>

theorem close_idempotent_and_safe:
  "close_times (Suc n) self = close_times 1 self
   \<and> fst (close_times (Suc n) self) = Inr ()
   \<and> close (init k m) = ([], Inr (), init k m)"
  using close_times_Suc [of n self] close_times_Suc [of 0 self]
  by (simp add: close_def init_def)

theorem close_idempotent_and_safe_witness:
  "close_times 3 \<lparr>api_key = ''k'', model = ''m'', ws = Some Open\<rparr> =
     (Inr (), \<lparr>api_key = ''k'', model = ''m'', ws = Some Closed\<rparr>)
   \<and> close_times 1 \<lparr>api_key = ''k'', model = ''m'', ws = Some Open\<rparr> =
     (Inr (), \<lparr>api_key = ''k'', model = ''m'', ws = Some Closed\<rparr>)
   \<and> close (init ''k'' ''m'') = ([], Inr (), \<lparr>api_key = ''k'', model = ''m'', ws = None\<rparr>)"
  using close_idempotent_and_safe
    [of 2 "\<lparr>api_key = ''k'', model = ''m'', ws = Some Open\<rparr>" "''k''" "''m''"]
  by (simp add: close_def init_def numeral_3_eq_3)

section \<open>The handler without a key\<close>

text \<open>
  C2, as the code has it: for every connection accepted while the credential is absent
  (the variable unset or empty), the handler sends the frame
  \<^verbatim>\<open>{"error": "Missing GOOGLE_API_KEY"}\<close> exactly once, and no upstream session is
  constructed or connected. If that send returns, the handler then closes the client
  connection, and returns if the close returns. If the send raises (the client has gone),
  the exception leaves the handler there, and the handler does not call
  \<^verbatim>\<open>websocket.close()\<close>.
\<close>

theorem missing_key_one_error_frame_close_if_sent:
  assumes "API_KEY e = None \<or> API_KEY e = Some []"
  shows "trace (ws_endpoint py e) =
           [Accept, ClientSendJson (JObj [(''error'', JStr ''Missing GOOGLE_API_KEY'')])]
             @ (case error_sent e of Inl x \<Rightarrow> [] | Inr u \<Rightarrow> [ClientClose])
       \<and> result (ws_endpoint py e) =
           (case error_sent e of
              Inl x \<Rightarrow> Raised x
            | Inr u \<Rightarrow> (case client_closed e of Inl y \<Rightarrow> Raised y | Inr v \<Rightarrow> Returned))
       \<and> length (filter (\<lambda>a. \<exists>j. a = ClientSendJson j) (trace (ws_endpoint py e))) = 1
       \<and> session_of (ws_endpoint py e) = None
       \<and> tasks (ws_endpoint py e) = None
       \<and> list_all (\<lambda>a. a = Accept \<or> a = ClientClose
              \<or> a = ClientSendJson (JObj [(''error'', JStr ''Missing GOOGLE_API_KEY'')]))
            (trace (ws_endpoint py e))"
  using assms
  by (auto simp: ws_endpoint_def missing_key_def split: sum.splits)

theorem missing_key_one_error_frame_close_if_sent_witness:
  "ws_endpoint sample_py (sample_env None (Inr ()) []) =
     \<lparr>trace = [Accept,
               ClientSendJson (JObj [(''error'', JStr ''Missing GOOGLE_API_KEY'')]),
               ClientClose],
      result = Returned, session_of = None, tasks = None\<rparr>
   \<and> trace (ws_endpoint sample_py (sample_env (Some []) (Inr ()) [])) =
       [Accept,
        ClientSendJson (JObj [(''error'', JStr ''Missing GOOGLE_API_KEY'')]),
        ClientClose]
   \<and> result (ws_endpoint sample_py (sample_env (Some []) (Inr ()) [])) = Returned"
proof -
  have none: "API_KEY (sample_env None (Inr ()) []) = None
      \<or> API_KEY (sample_env None (Inr ()) []) = Some []"
    by (simp add: sample_env_def API_KEY_def)
  have empty: "API_KEY (sample_env (Some []) (Inr ()) []) = None
      \<or> API_KEY (sample_env (Some []) (Inr ()) []) = Some []"
    by (simp add: sample_env_def API_KEY_def)
  have "ws_endpoint sample_py (sample_env None (Inr ()) []) =
     \<lparr>trace = trace (ws_endpoint sample_py (sample_env None (Inr ()) [])),
      result = result (ws_endpoint sample_py (sample_env None (Inr ()) [])),
      session_of = session_of (ws_endpoint sample_py (sample_env None (Inr ()) [])),
      tasks = tasks (ws_endpoint sample_py (sample_env None (Inr ()) []))\<rparr>"
    by simp
  with missing_key_one_error_frame_close_if_sent [OF none, of sample_py]
    missing_key_one_error_frame_close_if_sent [OF empty, of sample_py]
  show ?thesis
    by (simp add: sample_env_def)
qed

text \<open>
  C2 as stated fails: the key is unset and the client has gone when the error frame is
  sent, so \<^verbatim>\<open>send_json\<close> raises; the handler ends with that exception after
  \<^verbatim>\<open>accept\<close> and the one send, and has not closed the client connection.
\<close>

theorem missing_key_send_raises_no_close:
  "trace (ws_endpoint sample_py
     ((sample_env None (Inr ()) [])\<lparr>error_sent := Inl WebSocketDisconnect\<rparr>)) =
     [Accept, ClientSendJson (JObj [(''error'', JStr ''Missing GOOGLE_API_KEY'')])]
   \<and> ClientClose \<notin> set (trace (ws_endpoint sample_py
        ((sample_env None (Inr ()) [])\<lparr>error_sent := Inl WebSocketDisconnect\<rparr>)))
   \<and> result (ws_endpoint sample_py
        ((sample_env None (Inr ()) [])\<lparr>error_sent := Inl WebSocketDisconnect\<rparr>)) =
      Raised WebSocketDisconnect"
  by (simp add: ws_endpoint_def missing_key_def sample_env_def API_KEY_def)

section \<open>One turn of a pump\<close>

text \<open>
  C3: for every client frame \<^verbatim>\<open>{"type":"audio","pcm16":b}\<close> with \<open>b\<close> valid base64
  (it decodes, to \<open>pcm\<close>), the inbound pump calls \<^verbatim>\<open>send_user_audio\<close> with the decoded
  bytes, and the frame written upstream is the serialization of
  \<^verbatim>\<open>{"input":{"audio":{"mime_type":"audio/pcm;rate=16000","data":d}}}\<close> where \<open>d\<close>
  decodes to the same bytes; if \<open>b\<close> is the encoding of the bytes \<open>bs\<close> the client had,
  those are the bytes. Encoding then decoding loses nothing.
\<close>

theorem audio_frame_round_trip:
  assumes "json_loads py msg = Some (JObj kvs)"
    and "map_of kvs ''type'' = Some (JStr ''audio'')"
    and "map_of kvs ''pcm16'' = Some (JStr b)"
    and "b64decode (JStr b) = Inr pcm"
    and "ws session = Some c"
  shows "client_to_gemini_body py session (Inr msg) sent = send_user_audio py session pcm sent
       \<and> send_user_audio py session pcm sent =
           ([UpSend (json_dumps py
               (JObj [(''input'', JObj [(''audio'',
                  JObj [(''mime_type'', JStr ''audio/pcm;rate=16000''),
                        (''data'', JStr (b64encode pcm))])])]))],
            sent)
       \<and> b64decode (JStr (b64encode pcm)) = Inr pcm
       \<and> (b = b64encode bs \<longrightarrow> pcm = bs)"
proof -
  have "b = b64encode bs \<longrightarrow> pcm = bs"
    using assms(4) by (auto simp: b64decode_b64encode)
  then show ?thesis
    using assms
    by (simp add: client_to_gemini_body_def getitem_def send_user_audio_def
        b64decode_b64encode)
qed

theorem audio_frame_round_trip_witness:
  "client_to_gemini_body sample_py \<lparr>api_key = ''k'', model = ''m'', ws = Some Open\<rparr>
     (Inr ''audio'') (Inr ()) = ([UpSend ''input''], Inr ())
   \<and> b64decode (JStr ''aGk='') = Inr [104, 105]
   \<and> b64encode [104, 105] = ''aGk=''"
proof -
  have dec: "b64decode (JStr ''aGk='') = Inr [104, 105]"
    by code_simp
  have enc: "b64encode [104, 105] = ''aGk=''"
    by code_simp
  show ?thesis
    using audio_frame_round_trip
      [of sample_py "''audio''" "[(''type'', JStr ''audio''), (''pcm16'', JStr ''aGk='')]"
          "''aGk=''" "[104, 105]" "\<lparr>api_key = ''k'', model = ''m'', ws = Some Open\<rparr>" Open
          "Inr ()" "[104, 105]"]
      dec enc
    by (simp add: sample_py_def send_user_audio_def)
qed

text \<open>
  C4: for every client frame \<^verbatim>\<open>{"type":"text","text":s}\<close> the relay writes the upstream
  frame \<^verbatim>\<open>{"input":{"text":s}}\<close>, and for every event \<open>evt\<close> the upstream stream
  yields it sends the client exactly \<^verbatim>\<open>{"type":"gemini","data":evt}\<close>, the event
  unchanged; run one after the other from the start, the two turns make exactly these
  two calls.
\<close>

theorem text_frame_and_event_pass_through:
  assumes "json_loads py msg = Some (JObj kvs)"
    and "map_of kvs ''type'' = Some (JStr ''text'')"
    and "map_of kvs ''text'' = Some s"
    and "json_loads py m = Some evt"
    and "ws session = Some c"
  shows "client_to_gemini_body py session (Inr msg) sent =
           ([UpSend (json_dumps py (JObj [(''input'', JObj [(''text'', s)])]))], sent)
       \<and> gemini_to_client py session (Inr (Some m)) sent' =
           ([ClientSendJson (JObj [(''type'', JStr ''gemini''), (''data'', evt)])],
            case sent' of Inl x \<Rightarrow> Failed x | Inr u \<Rightarrow> Running)
       \<and> run_pumps py session
           [InboundTurn (Inr msg) (Inr ()), OutboundTurn (Inr (Some m)) (Inr ())] started =
           \<lparr>calls = [UpSend (json_dumps py (JObj [(''input'', JObj [(''text'', s)])])),
                     ClientSendJson (JObj [(''type'', JStr ''gemini''), (''data'', evt)])],
            c2g = Running, g2c = Running\<rparr>"
  using assms
  by (simp add: client_to_gemini_body_def client_to_gemini_def gemini_to_client_def
      getitem_def send_user_text_def receive_def turn_def started_def)

theorem text_frame_and_event_pass_through_witness:
  "run_pumps sample_py \<lparr>api_key = ''k'', model = ''m'', ws = Some Open\<rparr>
     [InboundTurn (Inr ''hello'') (Inr ()), OutboundTurn (Inr (Some ''hi'')) (Inr ())] started =
     \<lparr>calls = [UpSend ''input'',
               ClientSendJson (JObj [(''type'', JStr ''gemini''),
                 (''data'', JObj [(''output'', JObj [(''text'', JStr ''hi'')])])])],
      c2g = Running, g2c = Running\<rparr>"
  using text_frame_and_event_pass_through
    [of sample_py "''hello''" "[(''type'', JStr ''text''), (''text'', JStr ''hello'')]"
        "JStr ''hello''" "''hi''" "JObj [(''output'', JObj [(''text'', JStr ''hi'')])]"
        "\<lparr>api_key = ''k'', model = ''m'', ws = Some Open\<rparr>" Open "Inr ()" "Inr ()"]
  by (simp add: sample_py_def)

text \<open>
  C9: for every well-formed JSON client frame whose \<^verbatim>\<open>"type"\<close> is neither
  \<^verbatim>\<open>"text"\<close> nor \<^verbatim>\<open>"audio"\<close>, the inbound pump sends nothing upstream, raises
  nothing and goes on to the next frame: the pumps run on as if the frame had not come.
\<close>

theorem other_type_dropped:
  assumes "json_loads py msg = Some (JObj kvs)"
    and "map_of kvs ''type'' = Some t"
    and "t \<noteq> JStr ''text''" and "t \<noteq> JStr ''audio''"
  shows "client_to_gemini_body py session (Inr msg) sent = ([], Inr ())
       \<and> client_to_gemini py session (Inr msg) sent = ([], Running)
       \<and> run_pumps py session (InboundTurn (Inr msg) sent # evs) st = run_pumps py session evs st"
proof -
  have body: "client_to_gemini_body py session (Inr msg) sent = ([], Inr ())"
    using assms by (simp add: client_to_gemini_body_def getitem_def)
  then have step: "client_to_gemini py session (Inr msg) sent = ([], Running)"
    by (simp add: client_to_gemini_def)
  then have "turn py session (InboundTurn (Inr msg) sent) st = st"
    by (simp add: turn_def)
  with body step show ?thesis
    by simp
qed

theorem other_type_dropped_witness:
  "client_to_gemini sample_py \<lparr>api_key = ''k'', model = ''m'', ws = Some Open\<rparr>
     (Inr ''ping'') (Inr ()) = ([], Running)
   \<and> run_pumps sample_py \<lparr>api_key = ''k'', model = ''m'', ws = Some Open\<rparr>
       [InboundTurn (Inr ''ping'') (Inr ())] started = started"
  using other_type_dropped
    [of sample_py "''ping''" "[(''type'', JStr ''ping'')]" "JStr ''ping''"
        "\<lparr>api_key = ''k'', model = ''m'', ws = Some Open\<rparr>" "Inr ()" "[]" started]
  by (simp add: sample_py_def)

section \<open>Runs of the two pumps\<close>

lemma run_pumps_append:
  "run_pumps py session (xs @ ys) st = run_pumps py session ys (run_pumps py session xs st)"
  by (induction xs arbitrary: st) simp_all

lemma turn_c2g_ended: "c2g st \<noteq> Running \<Longrightarrow> c2g (turn py session ev st) = c2g st"
  by (cases ev) (simp_all add: turn_def split: prod.splits)

lemma turn_g2c_ended: "g2c st \<noteq> Running \<Longrightarrow> g2c (turn py session ev st) = g2c st"
  by (cases ev) (simp_all add: turn_def split: prod.splits)

lemma run_c2g_ended: "c2g st \<noteq> Running \<Longrightarrow> c2g (run_pumps py session evs st) = c2g st"
  by (induction evs arbitrary: st) (simp_all add: turn_c2g_ended)

lemma run_g2c_ended: "g2c st \<noteq> Running \<Longrightarrow> g2c (run_pumps py session evs st) = g2c st"
  by (induction evs arbitrary: st) (simp_all add: turn_g2c_ended)

lemma client_to_gemini_frames: "list_all is_frame (fst (client_to_gemini py session received sent))"
  by (simp add: client_to_gemini_def client_to_gemini_body_def send_user_text_def
      send_user_audio_def is_frame_def Let_def
      split: sum.splits option.splits prod.splits)

lemma gemini_to_client_frames: "list_all is_frame (fst (gemini_to_client py session item sent))"
  by (simp add: gemini_to_client_def is_frame_def split: sum.splits option.splits)

lemma turn_frames:
  assumes "list_all is_frame (calls st)"
  shows "list_all is_frame (calls (turn py session ev st))"
proof (cases ev)
  case (InboundTurn received sent)
  with assms client_to_gemini_frames [of py session received sent] show ?thesis
    by (auto simp: turn_def split: prod.splits)
next
  case (OutboundTurn item sent)
  with assms gemini_to_client_frames [of py session item sent] show ?thesis
    by (auto simp: turn_def split: prod.splits)
qed

lemma run_frames:
  "list_all is_frame (calls st) \<Longrightarrow> list_all is_frame (calls (run_pumps py session evs st))"
  by (induction evs arbitrary: st) (simp_all add: turn_frames)

lemma run_started_frames: "list_all is_frame (calls (run_pumps py session evs started))"
  by (rule run_frames) (simp add: started_def)

lemma frames_no_control:
  assumes "list_all is_frame cs"
  shows "UpClose \<notin> set cs" and "ClientClose \<notin> set cs"
    and "Cancel p \<notin> set cs" and "CreateTask p \<notin> set cs"
  using assms by (auto simp: list_all_iff is_frame_def)

text \<open>The handler once the upstream is open and set up.\<close>

lemma relay_connected:
  assumes "upstream_opened e = Inr u" and "setup_sent e = Inr v"
    and "st = run_pumps py \<lparr>api_key = k, model = MODEL_ID e, ws = Some Open\<rparr> (schedule e) started"
  shows "relay py e k =
    (if c2g st = Running \<and> g2c st = Running then
       \<lparr>trace = [Accept, UpConnect (GEMINI_LIVE_WS @ ''?key='' @ k) 33554432,
                 UpSend (json_dumps py (setup_frame (MODEL_ID e))),
                 CreateTask ClientToGemini, CreateTask GeminiToClient] @ calls st,
        result = Waiting,
        session_of = Some \<lparr>api_key = k, model = MODEL_ID e, ws = Some Open\<rparr>,
        tasks = Some (c2g st, g2c st)\<rparr>
     else
       \<lparr>trace = [Accept, UpConnect (GEMINI_LIVE_WS @ ''?key='' @ k) 33554432,
                 UpSend (json_dumps py (setup_frame (MODEL_ID e))),
                 CreateTask ClientToGemini, CreateTask GeminiToClient] @ calls st
                @ [Cancel ClientToGemini, Cancel GeminiToClient, UpClose],
        result = Returned,
        session_of = Some \<lparr>api_key = k, model = MODEL_ID e, ws = Some Closed\<rparr>,
        tasks = Some (cancel (c2g st), cancel (g2c st))\<rparr>)"
  using assms by (simp add: relay_def connect_def init_def close_def Let_def)

lemma cancel_not_Running: "cancel t \<noteq> Running"
  by (simp add: cancel_def)

lemma handler_tears_down:
  assumes "API_KEY e = Some k" and "k \<noteq> []"
    and "upstream_opened e = Inr u" and "setup_sent e = Inr v"
    and "st = run_pumps py \<lparr>api_key = k, model = MODEL_ID e, ws = Some Open\<rparr> (schedule e) started"
    and "c2g st \<noteq> Running \<or> g2c st \<noteq> Running"
  shows "ws_endpoint py e =
      \<lparr>trace = [Accept, UpConnect (GEMINI_LIVE_WS @ ''?key='' @ k) 33554432,
                UpSend (json_dumps py (setup_frame (MODEL_ID e))),
                CreateTask ClientToGemini, CreateTask GeminiToClient] @ calls st
               @ [Cancel ClientToGemini, Cancel GeminiToClient, UpClose],
       result = Returned,
       session_of = Some \<lparr>api_key = k, model = MODEL_ID e, ws = Some Closed\<rparr>,
       tasks = Some (cancel (c2g st), cancel (g2c st))\<rparr>"
  using assms relay_connected [OF assms(3) assms(4) assms(5)]
  by (auto simp: ws_endpoint_def)

section \<open>Teardown\<close>

text \<open>
  C1, as the code has it: whichever pump ends first (and also when both have ended by
  the time the handler is resumed), the handler calls \<^verbatim>\<open>cancel()\<close> on both tasks and
  then closes the upstream session, exactly once, and returns. It does not await the
  tasks: a pump that was still running has only had its cancellation requested when the
  handler closes the upstream.
\<close>

theorem first_completion_cancels_both_closes_once:
  assumes "API_KEY e = Some k" and "k \<noteq> []"
    and "upstream_opened e = Inr u" and "setup_sent e = Inr v"
    and "st = run_pumps py \<lparr>api_key = k, model = MODEL_ID e, ws = Some Open\<rparr> (schedule e) started"
    and "c2g st \<noteq> Running \<or> g2c st \<noteq> Running"
  shows "result (ws_endpoint py e) = Returned
       \<and> (\<exists>before. trace (ws_endpoint py e) =
             before @ [Cancel ClientToGemini, Cancel GeminiToClient, UpClose]
           \<and> UpClose \<notin> set before \<and> Cancel ClientToGemini \<notin> set before
           \<and> Cancel GeminiToClient \<notin> set before)
       \<and> count_list (trace (ws_endpoint py e)) UpClose = 1
       \<and> tasks (ws_endpoint py e) = Some (cancel (c2g st), cancel (g2c st))
       \<and> cancel (c2g st) \<noteq> Running \<and> cancel (g2c st) \<noteq> Running
       \<and> session_of (ws_endpoint py e) =
           Some \<lparr>api_key = k, model = MODEL_ID e, ws = Some Closed\<rparr>"
proof -
  let ?head = "[Accept, UpConnect (GEMINI_LIVE_WS @ ''?key='' @ k) 33554432,
                UpSend (json_dumps py (setup_frame (MODEL_ID e))),
                CreateTask ClientToGemini, CreateTask GeminiToClient]"
  let ?tail = "[Cancel ClientToGemini, Cancel GeminiToClient, UpClose]"
  have run: "ws_endpoint py e =
      \<lparr>trace = ?head @ calls st @ ?tail, result = Returned,
       session_of = Some \<lparr>api_key = k, model = MODEL_ID e, ws = Some Closed\<rparr>,
       tasks = Some (cancel (c2g st), cancel (g2c st))\<rparr>"
    using handler_tears_down [OF assms] .
  have frames: "list_all is_frame (calls st)"
    unfolding assms(5) by (rule run_started_frames)
  have none: "UpClose \<notin> set (calls st)" "Cancel ClientToGemini \<notin> set (calls st)"
    "Cancel GeminiToClient \<notin> set (calls st)"
    using frames_no_control [OF frames] by simp_all
  then have before: "UpClose \<notin> set (?head @ calls st)"
    "Cancel ClientToGemini \<notin> set (?head @ calls st)"
    "Cancel GeminiToClient \<notin> set (?head @ calls st)"
    by simp_all
  have count: "count_list (?head @ calls st @ ?tail) UpClose = 1"
    using none(1) by (simp add: count_list_0_iff)
  have "trace (ws_endpoint py e) = (?head @ calls st) @ ?tail"
    by (simp add: run)
  with before have "\<exists>before. trace (ws_endpoint py e) = before @ ?tail
      \<and> UpClose \<notin> set before \<and> Cancel ClientToGemini \<notin> set before
      \<and> Cancel GeminiToClient \<notin> set before"
    by blast
  moreover have "count_list (trace (ws_endpoint py e)) UpClose = 1"
    using count by (simp add: run)
  ultimately show ?thesis
    by (simp add: run cancel_not_Running)
qed

theorem first_completion_cancels_both_closes_once_witness:
  "ws_endpoint sample_py
     (sample_env (Some ''secret'') (Inr ())
        [InboundTurn (Inl WebSocketDisconnect) (Inr ()), OutboundTurn (Inr None) (Inr ())]) =
     \<lparr>trace = [Accept, UpConnect (GEMINI_LIVE_WS @ ''?key=secret'') 33554432, UpSend ''setup'',
               CreateTask ClientToGemini, CreateTask GeminiToClient,
               Cancel ClientToGemini, Cancel GeminiToClient, UpClose],
      result = Returned,
      session_of = Some \<lparr>api_key = ''secret'', model = ''models/gemini-2.5-flash'', ws = Some Closed\<rparr>,
      tasks = Some (Finished, Finished)\<rparr>
   \<and> count_list (trace (ws_endpoint sample_py
        (sample_env (Some ''secret'') (Inr ())
          [InboundTurn (Inl WebSocketDisconnect) (Inr ()), OutboundTurn (Inr None) (Inr ())])))
        UpClose = 1"
proof -
  let ?e = "sample_env (Some ''secret'') (Inr ())
    [InboundTurn (Inl WebSocketDisconnect) (Inr ()), OutboundTurn (Inr None) (Inr ())]"
  let ?st = "run_pumps sample_py
    \<lparr>api_key = ''secret'', model = MODEL_ID ?e, ws = Some Open\<rparr> (schedule ?e) started"
  have st: "?st = \<lparr>calls = [], c2g = Finished, g2c = Finished\<rparr>"
    by (simp add: sample_env_def turn_def started_def client_to_gemini_def
        client_to_gemini_body_def gemini_to_client_def receive_def)
  have "c2g ?st \<noteq> Running \<or> g2c ?st \<noteq> Running"
    by (simp add: st)
  from first_completion_cancels_both_closes_once
    [of ?e "''secret''" "()" "()" ?st sample_py, OF _ _ _ _ refl this]
  have "count_list (trace (ws_endpoint sample_py ?e)) UpClose = 1"
    by (simp add: sample_env_def API_KEY_def)
  moreover have "ws_endpoint sample_py ?e =
     \<lparr>trace = [Accept, UpConnect (GEMINI_LIVE_WS @ ''?key=secret'') 33554432, UpSend ''setup'',
               CreateTask ClientToGemini, CreateTask GeminiToClient,
               Cancel ClientToGemini, Cancel GeminiToClient, UpClose],
      result = Returned,
      session_of = Some \<lparr>api_key = ''secret'', model = ''models/gemini-2.5-flash'', ws = Some Closed\<rparr>,
      tasks = Some (Finished, Finished)\<rparr>"
    by (simp add: ws_endpoint_def relay_def connect_def init_def close_def sample_env_def
        API_KEY_def MODEL_ID_def sample_py_def setup_frame_def turn_def started_def
        client_to_gemini_def client_to_gemini_body_def gemini_to_client_def receive_def
        cancel_def)
  ultimately show ?thesis
    by simp
qed

text \<open>
  C1 as stated fails: the client disconnects and the inbound pump ends; the handler
  calls \<^verbatim>\<open>cancel()\<close> on both tasks and goes on to close the upstream and return, while
  the outbound pump has only been asked to cancel: it has not ended, so it was not
  awaited.
\<close>

theorem sibling_pump_left_pending:
  "result (ws_endpoint sample_py
     (sample_env (Some ''secret'') (Inr ()) [InboundTurn (Inl WebSocketDisconnect) (Inr ())])) =
     Returned
   \<and> tasks (ws_endpoint sample_py
     (sample_env (Some ''secret'') (Inr ()) [InboundTurn (Inl WebSocketDisconnect) (Inr ())])) =
     Some (Finished, CancelRequested)
   \<and> \<not> ended CancelRequested"
  by (simp add: ws_endpoint_def relay_def connect_def init_def close_def sample_env_def
      API_KEY_def MODEL_ID_def sample_py_def setup_frame_def turn_def started_def
      client_to_gemini_def client_to_gemini_body_def cancel_def ended_def)

section \<open>Failures\<close>




lemma relay_never_raises:
  assumes "API_KEY e = Some k" and "k \<noteq> []"
    and "upstream_opened e = Inr u" and "setup_sent e = Inr v"
  shows "result (ws_endpoint py e) \<noteq> Raised x"
  using assms relay_connected [OF assms(3) assms(4) refl, of py k]
  by (simp add: ws_endpoint_def)

lemma outbound_send_raises:
  assumes "json_loads py m = Some evt" and "ws session = Some c" and "g2c st = Running"
  shows "turn py session (OutboundTurn (Inr (Some m)) (Inl x)) st =
           st\<lparr>calls := calls st @ [ClientSendJson (JObj [(''type'', JStr ''gemini''), (''data'', evt)])],
              g2c := Failed x\<rparr>"
  using assms by (simp add: turn_def gemini_to_client_def receive_def)

text \<open>
  C6: once the session is up, an exception raised by \<^verbatim>\<open>send_json\<close> in the
  upstream-to-client pump (the client has gone) does not leave the handler. It ends that
  pump's task, which keeps it; \<^verbatim>\<open>asyncio.wait\<close> does not raise it and the handler never
  asks the task for it: the handler cancels, closes the upstream and returns normally,
  whatever else the schedule holds (a client disconnect seen by the other pump before or
  after).
\<close>

theorem outbound_send_error_not_propagated:
  assumes "API_KEY e = Some k" and "k \<noteq> []"
    and "upstream_opened e = Inr u" and "setup_sent e = Inr v"
    and "schedule e = pre @ OutboundTurn (Inr (Some m)) (Inl x) # post"
    and "json_loads py m = Some evt"
    and "g2c (run_pumps py \<lparr>api_key = k, model = MODEL_ID e, ws = Some Open\<rparr> pre started) = Running"
  shows "result (ws_endpoint py e) = Returned
       \<and> result (ws_endpoint py e) \<noteq> Raised y
       \<and> (\<exists>t. tasks (ws_endpoint py e) = Some (t, Failed x))
       \<and> (\<exists>before. trace (ws_endpoint py e) =
             before @ [Cancel ClientToGemini, Cancel GeminiToClient, UpClose])"
proof -
  let ?s = "\<lparr>api_key = k, model = MODEL_ID e, ws = Some Open\<rparr>"
  let ?pre = "run_pumps py ?s pre started"
  let ?st = "run_pumps py ?s (schedule e) started"
  have "?st = run_pumps py ?s post (turn py ?s (OutboundTurn (Inr (Some m)) (Inl x)) ?pre)"
    by (simp add: assms(5) run_pumps_append)
  moreover have "g2c (turn py ?s (OutboundTurn (Inr (Some m)) (Inl x)) ?pre) = Failed x"
    using outbound_send_raises [where c = Open and x = x, OF assms(6) _ assms(7)] by simp
  ultimately have failed: "g2c ?st = Failed x"
    by (simp add: run_g2c_ended)
  then have "c2g ?st \<noteq> Running \<or> g2c ?st \<noteq> Running"
    by simp
  from handler_tears_down [OF assms(1-4) refl this] failed
  show ?thesis
    by (simp add: cancel_def)
qed

theorem outbound_send_error_not_propagated_witness:
  "result (ws_endpoint sample_py (sample_env (Some ''secret'') (Inr ())
      [InboundTurn (Inl WebSocketDisconnect) (Inr ()),
       OutboundTurn (Inr (Some ''hi'')) (Inl ConnectionClosed)])) = Returned
   \<and> tasks (ws_endpoint sample_py (sample_env (Some ''secret'') (Inr ())
      [InboundTurn (Inl WebSocketDisconnect) (Inr ()),
       OutboundTurn (Inr (Some ''hi'')) (Inl ConnectionClosed)])) =
       Some (Finished, Failed ConnectionClosed)"
proof -
  let ?e = "sample_env (Some ''secret'') (Inr ())
      [InboundTurn (Inl WebSocketDisconnect) (Inr ()),
       OutboundTurn (Inr (Some ''hi'')) (Inl ConnectionClosed)]"
  have pre: "g2c (run_pumps sample_py
      \<lparr>api_key = ''secret'', model = MODEL_ID ?e, ws = Some Open\<rparr>
      [InboundTurn (Inl WebSocketDisconnect) (Inr ())] started) = Running"
    by (simp add: turn_def started_def client_to_gemini_def client_to_gemini_body_def)
  have sched: "schedule ?e = [InboundTurn (Inl WebSocketDisconnect) (Inr ())]
      @ OutboundTurn (Inr (Some ''hi'')) (Inl ConnectionClosed) # []"
    by (simp add: sample_env_def)
  have loads: "json_loads sample_py ''hi'' = Some (JObj [(''output'', JObj [(''text'', JStr ''hi'')])])"
    by (simp add: sample_py_def)
  have "result (ws_endpoint sample_py ?e) = Returned"
    using outbound_send_error_not_propagated
      [of ?e "''secret''" "()" "()" _ "''hi''" ConnectionClosed "[]" sample_py _ ConnectionClosed,
       OF _ _ _ _ sched loads pre]
    by (simp add: sample_env_def API_KEY_def)
  moreover have "tasks (ws_endpoint sample_py ?e) = Some (Finished, Failed ConnectionClosed)"
    by (simp add: ws_endpoint_def relay_def connect_def init_def close_def sample_env_def
        API_KEY_def MODEL_ID_def sample_py_def setup_frame_def turn_def started_def
        client_to_gemini_def client_to_gemini_body_def gemini_to_client_def receive_def
        cancel_def)
  ultimately show ?thesis
    by simp
qed

lemma malformed_raises:
  assumes "malformed py msg"
  shows "\<exists>x. x \<noteq> WebSocketDisconnect
           \<and> client_to_gemini_body py session (Inr msg) sent = ([], Inl x)"
  using assms
  by (auto simp: malformed_def client_to_gemini_body_def getitem_def
      split: option.splits sum.splits json.splits)

text \<open>
  C10: for every malformed client frame the inbound pump raises an exception that is not
  \<^verbatim>\<open>WebSocketDisconnect\<close>, so it is not caught: the turn sends nothing upstream and ends
  the pump's task as failed, and with the session up the handler then tears the session
  down: it cancels both tasks (the other pump too) and closes the upstream.
\<close>

theorem malformed_frame_ends_pump_and_session:
  assumes "API_KEY e = Some k" and "k \<noteq> []"
    and "upstream_opened e = Inr u" and "setup_sent e = Inr v"
    and "schedule e = pre @ InboundTurn (Inr msg) sent # post"
    and "malformed py msg"
    and "c2g (run_pumps py \<lparr>api_key = k, model = MODEL_ID e, ws = Some Open\<rparr> pre started) = Running"
  shows "\<exists>x. x \<noteq> WebSocketDisconnect
       \<and> client_to_gemini py \<lparr>api_key = k, model = MODEL_ID e, ws = Some Open\<rparr> (Inr msg) sent =
           ([], Failed x)
       \<and> (\<exists>t. tasks (ws_endpoint py e) = Some (Failed x, t) \<and> t \<noteq> Running)
       \<and> result (ws_endpoint py e) = Returned
       \<and> (\<exists>before. trace (ws_endpoint py e) =
             before @ [Cancel ClientToGemini, Cancel GeminiToClient, UpClose])"
proof -
  let ?s = "\<lparr>api_key = k, model = MODEL_ID e, ws = Some Open\<rparr>"
  let ?pre = "run_pumps py ?s pre started"
  let ?st = "run_pumps py ?s (schedule e) started"
  from malformed_raises [OF assms(6), of ?s sent]
  obtain x where x: "x \<noteq> WebSocketDisconnect"
    and body: "client_to_gemini_body py ?s (Inr msg) sent = ([], Inl x)"
    by blast
  then have step: "client_to_gemini py ?s (Inr msg) sent = ([], Failed x)"
    by (simp add: client_to_gemini_def)
  have "?st = run_pumps py ?s post (turn py ?s (InboundTurn (Inr msg) sent) ?pre)"
    by (simp add: assms(5) run_pumps_append)
  moreover have "c2g (turn py ?s (InboundTurn (Inr msg) sent) ?pre) = Failed x"
    using assms(7) step by (simp add: turn_def)
  ultimately have failed: "c2g ?st = Failed x"
    by (simp add: run_c2g_ended)
  then have "c2g ?st \<noteq> Running \<or> g2c ?st \<noteq> Running"
    by simp
  from handler_tears_down [OF assms(1-4) refl this] failed
  have "(\<exists>t. tasks (ws_endpoint py e) = Some (Failed x, t) \<and> t \<noteq> Running)
      \<and> result (ws_endpoint py e) = Returned
      \<and> (\<exists>before. trace (ws_endpoint py e) =
            before @ [Cancel ClientToGemini, Cancel GeminiToClient, UpClose])"
    by (simp add: cancel_def)
  with x step show ?thesis
    by blast
qed

theorem malformed_frame_ends_pump_and_session_witness:
  "malformed sample_py ''untyped''
   \<and> ws_endpoint sample_py (sample_env (Some ''secret'') (Inr ())
       [InboundTurn (Inr ''untyped'') (Inr ())]) =
     \<lparr>trace = [Accept, UpConnect (GEMINI_LIVE_WS @ ''?key=secret'') 33554432, UpSend ''setup'',
               CreateTask ClientToGemini, CreateTask GeminiToClient,
               Cancel ClientToGemini, Cancel GeminiToClient, UpClose],
      result = Returned,
      session_of = Some \<lparr>api_key = ''secret'', model = ''models/gemini-2.5-flash'', ws = Some Closed\<rparr>,
      tasks = Some (Failed (KeyError ''type''), CancelRequested)\<rparr>"
proof -
  let ?e = "sample_env (Some ''secret'') (Inr ()) [InboundTurn (Inr ''untyped'') (Inr ())]"
  have bad: "malformed sample_py ''untyped''"
    by (simp add: malformed_def sample_py_def getitem_def)
  have pre: "c2g (run_pumps sample_py
      \<lparr>api_key = ''secret'', model = MODEL_ID ?e, ws = Some Open\<rparr> [] started) = Running"
    by (simp add: started_def)
  have sched: "schedule ?e = [] @ InboundTurn (Inr ''untyped'') (Inr ()) # []"
    by (simp add: sample_env_def)
  have "\<exists>x. x \<noteq> WebSocketDisconnect \<and> result (ws_endpoint sample_py ?e) = Returned"
    using malformed_frame_ends_pump_and_session
      [of ?e "''secret''" "()" "()" "[]" "''untyped''" "Inr ()" "[]" sample_py, OF _ _ _ _ sched bad pre]
    by (auto simp: sample_env_def API_KEY_def)
  moreover have "ws_endpoint sample_py ?e =
     \<lparr>trace = [Accept, UpConnect (GEMINI_LIVE_WS @ ''?key=secret'') 33554432, UpSend ''setup'',
               CreateTask ClientToGemini, CreateTask GeminiToClient,
               Cancel ClientToGemini, Cancel GeminiToClient, UpClose],
      result = Returned,
      session_of = Some \<lparr>api_key = ''secret'', model = ''models/gemini-2.5-flash'', ws = Some Closed\<rparr>,
      tasks = Some (Failed (KeyError ''type''), CancelRequested)\<rparr>"
    by (simp add: ws_endpoint_def relay_def connect_def init_def close_def sample_env_def
        API_KEY_def MODEL_ID_def sample_py_def setup_frame_def turn_def started_def
        client_to_gemini_def client_to_gemini_body_def getitem_def cancel_def)
  ultimately show ?thesis
    using bad by simp
qed

end
